theory Spec2Isabelle
  imports Complex_Main
begin

section \<open>The JavaScript values and built-ins the schedule matcher uses\<close>

text \<open>
  The schedule matcher \<open>isShowOnAir\<close> is a TypeScript function over strings, numbers and a
  \<open>Date\<close>. This section embeds the built-ins it calls, each with the behaviour ECMAScript
  gives it, so that the functions of the next sections can be compared with their source line
  by line.

  A JavaScript string is a \<open>string\<close>; a \<open>char\<close> stands for a UTF-16 code unit below 256.
  \<open>undefined\<close> (a missing property, a missing array element) is \<open>None\<close>.
\<close>

subsection \<open>Strings\<close>

text \<open>White space and line terminators of ECMAScript, among the code units below 256:
  TAB, LF, VT, FF, CR, SP and NBSP. \<open>String.prototype.trim\<close> and the conversion of a string
  to a number both strip exactly these.\<close>

definition isWhiteSpace :: "char \<Rightarrow> bool" where
  "isWhiteSpace c = (of_char c \<in> {9, 10, 11, 12, 13, 32, 160 :: nat})"

definition trim :: "string \<Rightarrow> string" where
  "trim s = rev (dropWhile isWhiteSpace (rev (dropWhile isWhiteSpace s)))"

text \<open>\<open>s.split(sep)\<close> for a separator of one character: the empty string splits into one
  empty piece, and two adjacent separators enclose an empty piece.\<close>

fun split :: "char \<Rightarrow> string \<Rightarrow> string list" where
  "split sep [] = [[]]"
| "split sep (c # cs) =
     (if c = sep then [] # split sep cs
      else (case split sep cs of [] \<Rightarrow> [[c]] | p # ps \<Rightarrow> (c # p) # ps))"

text \<open>\<open>s.replace(a, b)\<close> with string arguments of one character replaces the first
  occurrence only.\<close>

fun replace :: "char \<Rightarrow> char \<Rightarrow> string \<Rightarrow> string" where
  "replace a b [] = []"
| "replace a b (c # cs) = (if c = a then b # cs else c # replace a b cs)"

definition includes_chr :: "string \<Rightarrow> char \<Rightarrow> bool" where
  "includes_chr s c = (c \<in> set s)"

text \<open>A string is truthy when it is not empty; \<open>undefined\<close> is falsy.\<close>

fun truthy :: "string option \<Rightarrow> bool" where
  "truthy None = False"
| "truthy (Some s) = (s \<noteq> [])"

subsection \<open>Arrays\<close>

text \<open>Reading an element, as array destructuring \<open>[a, b] = xs\<close> and \<open>xs[i]\<close> do: past the
  end (or at a negative index) the value is \<open>undefined\<close>.\<close>

definition element :: "'a list \<Rightarrow> int \<Rightarrow> 'a option" where
  "element xs i = (if 0 \<le> i \<and> i < int (length xs) then Some (xs ! nat i) else None)"

text \<open>\<open>xs.indexOf(x)\<close> on an array of strings: the first index holding \<open>x\<close>, or \<open>-1\<close>.
  No element is \<open>undefined\<close>, so \<open>undefined\<close> is found nowhere.\<close>

fun indexFrom :: "int \<Rightarrow> string list \<Rightarrow> string \<Rightarrow> int" where
  "indexFrom i [] s = -1"
| "indexFrom i (x # xs) s = (if x = s then i else indexFrom (i + 1) xs s)"

fun indexOf :: "string list \<Rightarrow> string option \<Rightarrow> int" where
  "indexOf xs None = -1"
| "indexOf xs (Some s) = indexFrom 0 xs s"

subsection \<open>Numbers\<close>

text \<open>
  A JavaScript number is \<open>NaN\<close>, an infinity or a finite value. Finite values are kept as
  exact rationals: the rounding of a finite value to a 53-bit significand is not modelled, the
  overflow of a finite result to an infinity is. Every integer below \<open>2^53\<close> in magnitude is
  a double, so the model is exact on the hours and minutes of a clock time. Negative zero is
  \<open>Fin 0\<close>: no operation used here tells the two zeros apart.
\<close>

datatype jsnum = NaN | PosInf | NegInf | Fin rat

definition overflow :: "rat \<Rightarrow> jsnum" where
  "overflow q =
     (if 2 ^ 1024 - 2 ^ 970 \<le> q then PosInf
      else if q \<le> - (2 ^ 1024 - 2 ^ 970) then NegInf
      else Fin q)"

fun js_neg :: "jsnum \<Rightarrow> jsnum" where
  "js_neg NaN = NaN"
| "js_neg PosInf = NegInf"
| "js_neg NegInf = PosInf"
| "js_neg (Fin q) = Fin (- q)"

fun js_sign :: "jsnum \<Rightarrow> int" where
  "js_sign PosInf = 1"
| "js_sign NegInf = -1"
| "js_sign (Fin q) = (if q < 0 then -1 else if q = 0 then 0 else 1)"
| "js_sign NaN = 0"

text \<open>\<open>a * b\<close>: \<open>NaN\<close> is contagious, zero times an infinity is \<open>NaN\<close>.\<close>

fun js_times :: "jsnum \<Rightarrow> jsnum \<Rightarrow> jsnum" where
  "js_times NaN b = NaN"
| "js_times a NaN = NaN"
| "js_times (Fin p) (Fin q) = overflow (p * q)"
| "js_times a b =
     (if js_sign a * js_sign b = 0 then NaN
      else if js_sign a * js_sign b > 0 then PosInf else NegInf)"

text \<open>\<open>a + b\<close> on numbers: the sum of opposite infinities is \<open>NaN\<close>.\<close>

fun js_plus :: "jsnum \<Rightarrow> jsnum \<Rightarrow> jsnum" where
  "js_plus NaN b = NaN"
| "js_plus a NaN = NaN"
| "js_plus (Fin p) (Fin q) = overflow (p + q)"
| "js_plus PosInf NegInf = NaN"
| "js_plus NegInf PosInf = NaN"
| "js_plus PosInf b = PosInf"
| "js_plus NegInf b = NegInf"
| "js_plus a PosInf = PosInf"
| "js_plus a NegInf = NegInf"

text \<open>\<open>a < b\<close> and \<open>a >= b\<close>: every comparison with \<open>NaN\<close> is false.\<close>

fun js_less :: "jsnum \<Rightarrow> jsnum \<Rightarrow> bool" where
  "js_less NaN b = False"
| "js_less a NaN = False"
| "js_less (Fin p) (Fin q) = (p < q)"
| "js_less a NegInf = False"
| "js_less PosInf b = False"
| "js_less NegInf b = True"
| "js_less a PosInf = True"

fun js_ge :: "jsnum \<Rightarrow> jsnum \<Rightarrow> bool" where
  "js_ge NaN b = False"
| "js_ge a NaN = False"
| "js_ge a b = (\<not> js_less a b)"

text \<open>\<open>a % d\<close> for a finite divisor \<open>d\<close>: the remainder of the division truncated towards
  zero; \<open>NaN\<close> when \<open>a\<close> is not finite or \<open>d\<close> is zero.\<close>

fun js_rem :: "jsnum \<Rightarrow> rat \<Rightarrow> jsnum" where
  "js_rem (Fin p) d =
     (if d = 0 then NaN
      else Fin (p - d * of_int (if 0 \<le> p / d then \<lfloor>p / d\<rfloor> else \<lceil>p / d\<rceil>)))"
| "js_rem a d = NaN"

text \<open>\<open>isNaN(x)\<close> converts its argument to a number first; \<open>undefined\<close> converts to
  \<open>NaN\<close>.\<close>

fun isNaN :: "jsnum option \<Rightarrow> bool" where
  "isNaN None = True"
| "isNaN (Some n) = (n = NaN)"

text \<open>
  \<open>Number(s)\<close> on a string, after the StringNumericLiteral grammar of ECMAScript: white space
  is stripped from both ends; the empty string is \<open>0\<close>; a decimal literal may carry a sign, a
  fraction and an exponent; \<open>Infinity\<close> may carry a sign; a binary, octal or hexadecimal integer
  carries none; everything else is \<open>NaN\<close>.
\<close>

definition isDecimalDigit :: "char \<Rightarrow> bool" where
  "isDecimalDigit c = (c \<in> set ''0123456789'')"

definition digitValue :: "char \<Rightarrow> nat" where
  "digitValue c =
     (if c \<in> set ''0123456789'' then of_char c - 48
      else if c \<in> set ''abcdef'' then of_char c - 87
      else if c \<in> set ''ABCDEF'' then of_char c - 55
      else 0)"

definition digitsValue :: "nat \<Rightarrow> string \<Rightarrow> nat" where
  "digitsValue base ds = foldl (\<lambda>acc c. acc * base + digitValue c) 0 ds"

text \<open>The text before the first character that satisfies \<open>p\<close>, and the text after it when
  there is such a character.\<close>

definition splitAtFirst :: "(char \<Rightarrow> bool) \<Rightarrow> string \<Rightarrow> string \<times> string option" where
  "splitAtFirst p s =
     (takeWhile (\<lambda>c. \<not> p c) s,
      case dropWhile (\<lambda>c. \<not> p c) s of [] \<Rightarrow> None | c # rest \<Rightarrow> Some rest)"

definition SignedInteger :: "string \<Rightarrow> int option" where
  "SignedInteger s =
     (let (negative, ds) =
            (case s of
               [] \<Rightarrow> (False, [])
             | c # rest \<Rightarrow>
                 if c = CHR ''+'' then (False, rest)
                 else if c = CHR ''-'' then (True, rest)
                 else (False, s))
      in if ds \<noteq> [] \<and> list_all isDecimalDigit ds
         then Some (if negative then - int (digitsValue 10 ds) else int (digitsValue 10 ds))
         else None)"

definition pow10 :: "int \<Rightarrow> rat" where
  "pow10 e = (if 0 \<le> e then 10 ^ nat e else 1 / 10 ^ nat (- e))"

definition StrUnsignedDecimalLiteral :: "string \<Rightarrow> jsnum" where
  "StrUnsignedDecimalLiteral s =
     (if s = ''Infinity'' then PosInf
      else
        let (mantissa, exponentPart) = splitAtFirst (\<lambda>c. c = CHR ''e'' \<or> c = CHR ''E'') s;
            (integerPart, fractionPart) = splitAtFirst (\<lambda>c. c = CHR ''.'') mantissa;
            fraction = (case fractionPart of None \<Rightarrow> [] | Some f \<Rightarrow> f);
            exponent = (case exponentPart of None \<Rightarrow> Some 0 | Some e \<Rightarrow> SignedInteger e)
        in if list_all isDecimalDigit integerPart \<and> list_all isDecimalDigit fraction
              \<and> (integerPart \<noteq> [] \<or> fraction \<noteq> [])
           then (case exponent of
                   None \<Rightarrow> NaN
                 | Some e \<Rightarrow>
                     overflow (of_nat (digitsValue 10 (integerPart @ fraction))
                               * pow10 (e - int (length fraction))))
           else NaN)"

definition StrDecimalLiteral :: "string \<Rightarrow> jsnum" where
  "StrDecimalLiteral s =
     (case s of
        [] \<Rightarrow> NaN
      | c # rest \<Rightarrow>
          if c = CHR ''+'' then StrUnsignedDecimalLiteral rest
          else if c = CHR ''-'' then js_neg (StrUnsignedDecimalLiteral rest)
          else StrUnsignedDecimalLiteral s)"

definition NonDecimalIntegerLiteral :: "string \<Rightarrow> jsnum option" where
  "NonDecimalIntegerLiteral s =
     (case s of
        z # x # ds \<Rightarrow>
          if z = CHR ''0'' \<and> ds \<noteq> [] then
            (if x \<in> set ''xX'' \<and> list_all (\<lambda>c. c \<in> set ''0123456789abcdefABCDEF'') ds
               then Some (overflow (of_nat (digitsValue 16 ds)))
             else if x \<in> set ''oO'' \<and> list_all (\<lambda>c. c \<in> set ''01234567'') ds
               then Some (overflow (of_nat (digitsValue 8 ds)))
             else if x \<in> set ''bB'' \<and> list_all (\<lambda>c. c \<in> set ''01'') ds
               then Some (overflow (of_nat (digitsValue 2 ds)))
             else None)
          else None
      | _ \<Rightarrow> None)"

definition Number :: "string \<Rightarrow> jsnum" where
  "Number s =
     (let t = trim s
      in if t = [] then Fin 0
         else (case NonDecimalIntegerLiteral t of
                 Some n \<Rightarrow> n
               | None \<Rightarrow> StrDecimalLiteral t))"

subsection \<open>Dates\<close>

text \<open>
  Of a \<open>Date\<close> the matcher reads \<open>getDay()\<close> (0 is Sunday, 6 is Saturday), \<open>getHours()\<close> and
  \<open>getMinutes()\<close>, all in local time. A \<open>Date\<close> may be invalid; then every getter returns
  \<open>NaN\<close>. A valid date is given by its weekday, hour, minute and second.
\<close>

datatype Date = InvalidDate | ValidDate nat nat nat nat

fun getDay :: "Date \<Rightarrow> jsnum" where
  "getDay InvalidDate = NaN"
| "getDay (ValidDate wd h m s) = Fin (of_nat wd)"

fun getHours :: "Date \<Rightarrow> jsnum" where
  "getHours InvalidDate = NaN"
| "getHours (ValidDate wd h m s) = Fin (of_nat h)"

fun getMinutes :: "Date \<Rightarrow> jsnum" where
  "getMinutes InvalidDate = NaN"
| "getMinutes (ValidDate wd h m s) = Fin (of_nat m)"

section \<open>The schedule record\<close>

text \<open>
  \<open>RadioShow\<close> of the type declarations: a row of the \<open>TimeSlots\<close> sheet. \<open>Day\<close> and
  \<open>Day(s) of Week\<close> are optional; \<open>Start\<close> and \<open>End\<close> are declared as strings, and since
  \<open>isShowOnAir\<close> tests them for presence they are optional here as well. \<open>None\<close> is a field
  that is \<open>undefined\<close> or \<open>null\<close>. The field \<open>Day(s) of Week\<close> is \<open>Days_of_Week\<close>.
\<close>

record RadioShow =
  rowIndex :: int
  Days_of_Week :: "string option"
  Day :: "string option"
  Show :: string
  Presenter :: string
  Start :: "string option"
  End :: "string option"
  Aliases :: "string option"

section \<open>The matcher of the registration analytics\<close>

subsection \<open>The constants of the module\<close>

text \<open>\<open>shortDayToFull\<close> is read with a key that is a string or \<open>undefined\<close>. Only the
  seven own keys give a string. A key inherited from \<open>Object.prototype\<close>, such as
  \<open>constructor\<close>, gives a function or an object, which the source then adds to its set; no
  lookup in the set ever finds it, every lookup being by a string or by \<open>undefined\<close>. The
  embedding keeps the strings of the set only, and so the lookup gives \<open>None\<close> there.\<close>

definition shortDayToFull :: "string \<Rightarrow> string option" where
  "shortDayToFull =
     map_of [(''Mon'', ''Monday''), (''Tue'', ''Tuesday''), (''Wed'', ''Wednesday''),
             (''Thu'', ''Thursday''), (''Fri'', ''Friday''), (''Sat'', ''Saturday''),
             (''Sun'', ''Sunday'')]"

definition dayOrderArray :: "string list" where
  "dayOrderArray = [''Mon'', ''Tue'', ''Wed'', ''Thu'', ''Fri'', ''Sat'', ''Sun'']"

definition fullDaysOfWeek :: "string list" where
  "fullDaysOfWeek =
     [''Monday'', ''Tuesday'', ''Wednesday'', ''Thursday'', ''Friday'', ''Saturday'', ''Sunday'']"

text \<open>\<open>dayFullNameMap\<close> is read with a number; its keys are the integers 0 to 6.\<close>

definition dayFullNameMap :: "jsnum \<Rightarrow> string option" where
  "dayFullNameMap n =
     (case n of
        Fin q \<Rightarrow>
          map_of [(0, ''Sunday''), (1, ''Monday''), (2, ''Tuesday''), (3, ''Wednesday''),
                  (4, ''Thursday''), (5, ''Friday''), (6, ''Saturday'')] q
      | _ \<Rightarrow> None)"

subsection \<open>Resolving the day descriptor\<close>

text \<open>\<open>scheduledDays\<close> is a \<open>Set\<close> of strings, local to one call and empty at its start;
  \<open>has\<close> of \<open>undefined\<close> is false. In the two loops below the set built so far is the
  argument \<open>scheduled\<close>.\<close>

fun has :: "string set \<Rightarrow> string option \<Rightarrow> bool" where
  "has S None = False"
| "has S (Some x) = (x \<in> S)"

text \<open>The inner loop \<open>for (let i = startIndex; i <= endIndex; i++)\<close>: its body, then the
  loop. \<open>shortDayToFull[undefined]\<close> is \<open>undefined\<close>.\<close>

definition addDay :: "int \<Rightarrow> string set \<Rightarrow> string set" where
  "addDay i scheduled =
     (let dayName = (case element dayOrderArray i of
                       None \<Rightarrow> None
                     | Some short \<Rightarrow> shortDayToFull short)
      in if truthy dayName then insert (the dayName) scheduled else scheduled)"

definition addRange :: "int \<Rightarrow> int \<Rightarrow> string set \<Rightarrow> string set" where
  "addRange startIndex endIndex scheduled =
     fold addDay [startIndex..endIndex] scheduled"

text \<open>The body of the loop \<open>for (const part of parts)\<close>.\<close>

definition addPart :: "string \<Rightarrow> string set \<Rightarrow> string set" where
  "addPart part scheduled =
     (if includes_chr part CHR ''-'' then
        (let pieces = split CHR ''-'' part;
             startShort = element pieces 0;
             endShort = element pieces 1;
             startIndex = indexOf dayOrderArray startShort;
             endIndex = indexOf dayOrderArray endShort
         in if startIndex > -1 \<and> endIndex > -1 \<and> startIndex \<le> endIndex
            then addRange startIndex endIndex scheduled
            else scheduled)
      else
        (let dayName = shortDayToFull part
         in if truthy dayName then insert (the dayName) scheduled
            else if part \<in> set fullDaysOfWeek then insert part scheduled
            else scheduled))"

text \<open>\<open>formattedDayString.split(',').map(p => p.trim()).filter(Boolean)\<close>.\<close>

definition parts :: "string \<Rightarrow> string list" where
  "parts dayString =
     filter (\<lambda>p. p \<noteq> []) (map trim (split CHR '','' dayString))"

definition scheduledDays :: "string \<Rightarrow> string set" where
  "scheduledDays dayString = fold addPart (parts dayString) {}"

subsection \<open>Reading a clock time\<close>

text \<open>
  The lines that read \<open>Start\<close>, and again \<open>End\<close>:
  \<^verbatim>\<open>const startTimeStr = String(startTimeValue).replace('h', ':');\<close>
  \<^verbatim>\<open>const [startH, startM] = startTimeStr.split(':').map(Number);\<close>
  \<^verbatim>\<open>if (isNaN(startH) || isNaN(startM)) return false;\<close>
  \<^verbatim>\<open>const startTime = startH * 60 + startM;\<close>
  \<open>None\<close> is the early return.
\<close>

definition minutesOf :: "string \<Rightarrow> jsnum option" where
  "minutesOf timeValue =
     (let timeStr = replace CHR ''h'' CHR '':'' timeValue;
          numbers = map Number (split CHR '':'' timeStr);
          H = element numbers 0;
          M = element numbers 1
      in if isNaN H \<or> isNaN M then None
         else Some (js_plus (js_times (the H) (Fin 60)) (the M)))"

subsection \<open>\<open>isShowOnAir\<close>\<close>

definition formattedDayString :: "RadioShow \<Rightarrow> string" where
  "formattedDayString show =
     (case Day show of
        Some d \<Rightarrow> d
      | None \<Rightarrow> (case Days_of_Week show of Some r \<Rightarrow> r | None \<Rightarrow> []))"

definition currentDayName :: "Date \<Rightarrow> string option" where
  "currentDayName date = dayFullNameMap (getDay date)"

definition previousDayName :: "Date \<Rightarrow> string option" where
  "previousDayName date = dayFullNameMap (js_rem (js_plus (getDay date) (Fin 6)) 7)"

definition currentTime :: "Date \<Rightarrow> jsnum" where
  "currentTime date = js_plus (js_times (getHours date) (Fin 60)) (getMinutes date)"

definition isShowOnAir :: "RadioShow \<Rightarrow> Date \<Rightarrow> bool" where
  "isShowOnAir show date =
     (let startTimeValue = Start show;
          endTimeValue = End show
      in if formattedDayString show = [] \<or> \<not> truthy startTimeValue \<or> \<not> truthy endTimeValue
         then False
         else
           (let days = scheduledDays (formattedDayString show)
            in case minutesOf (the startTimeValue) of
                 None \<Rightarrow> False
               | Some startTime \<Rightarrow>
                   (case minutesOf (the endTimeValue) of
                      None \<Rightarrow> False
                    | Some endTime \<Rightarrow>
                        (let crossesMidnight = js_less endTime startTime
                         in if crossesMidnight then
                              (let isAfterStartTimeOnStartDay =
                                     has days (currentDayName date)
                                     \<and> js_ge (currentTime date) startTime;
                                   isBeforeEndTimeOnNextDay =
                                     has days (previousDayName date)
                                     \<and> js_less (currentTime date) endTime
                               in isAfterStartTimeOnStartDay \<or> isBeforeEndTimeOnNextDay)
                            else
                              has days (currentDayName date)
                              \<and> js_ge (currentTime date) startTime
                              \<and> js_less (currentTime date) endTime))))"

section \<open>The matcher of the request analytics\<close>

text \<open>
  The module of the request analytics declares the four constants and \<open>isShowOnAir\<close> a second
  time. The second copy is embedded on its own, from its own source text, under the prefix
  \<open>req_\<close>.
\<close>

subsection \<open>The constants of the module, declared again\<close>

definition req_shortDayToFull :: "string \<Rightarrow> string option" where
  "req_shortDayToFull =
     map_of [(''Mon'', ''Monday''), (''Tue'', ''Tuesday''), (''Wed'', ''Wednesday''),
             (''Thu'', ''Thursday''), (''Fri'', ''Friday''), (''Sat'', ''Saturday''),
             (''Sun'', ''Sunday'')]"

definition req_dayOrderArray :: "string list" where
  "req_dayOrderArray = [''Mon'', ''Tue'', ''Wed'', ''Thu'', ''Fri'', ''Sat'', ''Sun'']"

definition req_fullDaysOfWeek :: "string list" where
  "req_fullDaysOfWeek =
     [''Monday'', ''Tuesday'', ''Wednesday'', ''Thursday'', ''Friday'', ''Saturday'', ''Sunday'']"

definition req_dayFullNameMap :: "jsnum \<Rightarrow> string option" where
  "req_dayFullNameMap n =
     (case n of
        Fin q \<Rightarrow>
          map_of [(0, ''Sunday''), (1, ''Monday''), (2, ''Tuesday''), (3, ''Wednesday''),
                  (4, ''Thursday''), (5, ''Friday''), (6, ''Saturday'')] q
      | _ \<Rightarrow> None)"

subsection \<open>Resolving the day descriptor, second copy\<close>

text \<open>The inner loop \<open>for (let i = startIndex; i <= endIndex; i++)\<close>: its body, then the
  loop. \<open>shortDayToFull[undefined]\<close> is \<open>undefined\<close>.\<close>

definition req_addDay :: "int \<Rightarrow> string set \<Rightarrow> string set" where
  "req_addDay i scheduled =
     (let dayName = (case element req_dayOrderArray i of
                       None \<Rightarrow> None
                     | Some short \<Rightarrow> req_shortDayToFull short)
      in if truthy dayName then insert (the dayName) scheduled else scheduled)"

definition req_addRange :: "int \<Rightarrow> int \<Rightarrow> string set \<Rightarrow> string set" where
  "req_addRange startIndex endIndex scheduled =
     fold req_addDay [startIndex..endIndex] scheduled"

definition req_addPart :: "string \<Rightarrow> string set \<Rightarrow> string set" where
  "req_addPart part scheduled =
     (if includes_chr part CHR ''-'' then
        (let pieces = split CHR ''-'' part;
             startShort = element pieces 0;
             endShort = element pieces 1;
             startIndex = indexOf req_dayOrderArray startShort;
             endIndex = indexOf req_dayOrderArray endShort
         in if startIndex > -1 \<and> endIndex > -1 \<and> startIndex \<le> endIndex
            then req_addRange startIndex endIndex scheduled
            else scheduled)
      else
        (let dayName = req_shortDayToFull part
         in if truthy dayName then insert (the dayName) scheduled
            else if part \<in> set req_fullDaysOfWeek then insert part scheduled
            else scheduled))"

definition req_parts :: "string \<Rightarrow> string list" where
  "req_parts dayString =
     filter (\<lambda>p. p \<noteq> []) (map trim (split CHR '','' dayString))"

definition req_scheduledDays :: "string \<Rightarrow> string set" where
  "req_scheduledDays dayString = fold req_addPart (req_parts dayString) {}"

subsection \<open>Reading a clock time, second copy\<close>

definition req_minutesOf :: "string \<Rightarrow> jsnum option" where
  "req_minutesOf timeValue =
     (let timeStr = replace CHR ''h'' CHR '':'' timeValue;
          numbers = map Number (split CHR '':'' timeStr);
          H = element numbers 0;
          M = element numbers 1
      in if isNaN H \<or> isNaN M then None
         else Some (js_plus (js_times (the H) (Fin 60)) (the M)))"

subsection \<open>\<open>isShowOnAir\<close> of the request analytics\<close>

definition req_formattedDayString :: "RadioShow \<Rightarrow> string" where
  "req_formattedDayString show =
     (case Day show of
        Some d \<Rightarrow> d
      | None \<Rightarrow> (case Days_of_Week show of Some r \<Rightarrow> r | None \<Rightarrow> []))"

definition req_currentDayName :: "Date \<Rightarrow> string option" where
  "req_currentDayName date = req_dayFullNameMap (getDay date)"

definition req_previousDayName :: "Date \<Rightarrow> string option" where
  "req_previousDayName date = req_dayFullNameMap (js_rem (js_plus (getDay date) (Fin 6)) 7)"

definition req_currentTime :: "Date \<Rightarrow> jsnum" where
  "req_currentTime date = js_plus (js_times (getHours date) (Fin 60)) (getMinutes date)"

definition req_isShowOnAir :: "RadioShow \<Rightarrow> Date \<Rightarrow> bool" where
  "req_isShowOnAir show date =
     (let startTimeValue = Start show;
          endTimeValue = End show
      in if req_formattedDayString show = [] \<or> \<not> truthy startTimeValue \<or> \<not> truthy endTimeValue
         then False
         else
           (let days = req_scheduledDays (req_formattedDayString show)
            in case req_minutesOf (the startTimeValue) of
                 None \<Rightarrow> False
               | Some startTime \<Rightarrow>
                   (case req_minutesOf (the endTimeValue) of
                      None \<Rightarrow> False
                    | Some endTime \<Rightarrow>
                        (let crossesMidnight = js_less endTime startTime
                         in if crossesMidnight then
                              (let isAfterStartTimeOnStartDay =
                                     has days (req_currentDayName date)
                                     \<and> js_ge (req_currentTime date) startTime;
                                   isBeforeEndTimeOnNextDay =
                                     has days (req_previousDayName date)
                                     \<and> js_less (req_currentTime date) endTime
                               in isAfterStartTimeOnStartDay \<or> isBeforeEndTimeOnNextDay)
                            else
                              has days (req_currentDayName date)
                              \<and> js_ge (req_currentTime date) startTime
                              \<and> js_less (req_currentTime date) endTime))))"

section \<open>The day selector of the schedule table\<close>

text \<open>
  The module of the data table declares three of the constants once more and resolves a day
  descriptor with the same loop, in \<open>normaliseDaysForSelector\<close>, which returns the resolved
  days as text, in the order Monday to Sunday. Its definitions carry the prefix \<open>sel_\<close>.
\<close>

definition sel_shortDayToFull :: "string \<Rightarrow> string option" where
  "sel_shortDayToFull =
     map_of [(''Mon'', ''Monday''), (''Tue'', ''Tuesday''), (''Wed'', ''Wednesday''),
             (''Thu'', ''Thursday''), (''Fri'', ''Friday''), (''Sat'', ''Saturday''),
             (''Sun'', ''Sunday'')]"

definition sel_dayOrderArray :: "string list" where
  "sel_dayOrderArray = [''Mon'', ''Tue'', ''Wed'', ''Thu'', ''Fri'', ''Sat'', ''Sun'']"

definition sel_fullDaysOfWeek :: "string list" where
  "sel_fullDaysOfWeek =
     [''Monday'', ''Tuesday'', ''Wednesday'', ''Thursday'', ''Friday'', ''Saturday'', ''Sunday'']"

text \<open>\<open>/(Mon|Tue|Wed|Thu|Fri|Sat|Sun|-)/i.test(s)\<close>: some abbreviation, in any mix of upper
  and lower case, or a \<open>-\<close>, occurs somewhere in \<open>s\<close>. Without the flag \<open>u\<close> a character
  beyond ASCII never matches an ASCII letter.\<close>

definition lowerCase :: "char \<Rightarrow> char" where
  "lowerCase c = (if c \<in> set ''ABCDEFGHIJKLMNOPQRSTUVWXYZ'' then char_of (of_char c + (32::nat)) else c)"

fun startsWith :: "string \<Rightarrow> string \<Rightarrow> bool" where
  "startsWith s [] = True"
| "startsWith [] (p # ps) = False"
| "startsWith (c # cs) (p # ps) = (c = p \<and> startsWith cs ps)"

fun occursIn :: "string \<Rightarrow> string \<Rightarrow> bool" where
  "occursIn p [] = (p = [])"
| "occursIn p (c # cs) = (startsWith (c # cs) p \<or> occursIn p cs)"

definition looksCompressed :: "string \<Rightarrow> bool" where
  "looksCompressed trimmed =
     list_ex (\<lambda>p. occursIn p (map lowerCase trimmed))
       [''mon'', ''tue'', ''wed'', ''thu'', ''fri'', ''sat'', ''sun'', ''-'']"

text \<open>\<open>xs.join(sep)\<close>.\<close>

fun join :: "string \<Rightarrow> string list \<Rightarrow> string" where
  "join sep [] = []"
| "join sep [x] = x"
| "join sep (x # y # ys) = x @ sep @ join sep (y # ys)"

definition sel_addDay :: "int \<Rightarrow> string set \<Rightarrow> string set" where
  "sel_addDay i fullDays =
     (let dayName = (case element sel_dayOrderArray i of
                       None \<Rightarrow> None
                     | Some short \<Rightarrow> sel_shortDayToFull short)
      in if truthy dayName then insert (the dayName) fullDays else fullDays)"

definition sel_addRange :: "int \<Rightarrow> int \<Rightarrow> string set \<Rightarrow> string set" where
  "sel_addRange startIndex endIndex fullDays =
     fold sel_addDay [startIndex..endIndex] fullDays"

definition sel_addPart :: "string \<Rightarrow> string set \<Rightarrow> string set" where
  "sel_addPart part fullDays =
     (if includes_chr part CHR ''-'' then
        (let pieces = split CHR ''-'' part;
             startShort = element pieces 0;
             endShort = element pieces 1;
             startIndex = indexOf sel_dayOrderArray startShort;
             endIndex = indexOf sel_dayOrderArray endShort
         in if startIndex > -1 \<and> endIndex > -1 \<and> startIndex \<le> endIndex
            then sel_addRange startIndex endIndex fullDays
            else fullDays)
      else
        (let dayName = sel_shortDayToFull part
         in if truthy dayName then insert (the dayName) fullDays
            else if part \<in> set sel_fullDaysOfWeek then insert part fullDays
            else fullDays))"

definition sel_parts :: "string \<Rightarrow> string list" where
  "sel_parts trimmed = filter (\<lambda>p. p \<noteq> []) (map trim (split CHR '','' trimmed))"

definition sel_fullDays :: "string \<Rightarrow> string set" where
  "sel_fullDays trimmed = fold sel_addPart (sel_parts trimmed) {}"

definition normaliseDaysForSelector :: "string \<Rightarrow> string" where
  "normaliseDaysForSelector raw =
     (if raw = [] then []
      else
        (let trimmed = trim raw
         in if trimmed = [] then []
            else if \<not> looksCompressed trimmed then trimmed
            else
              (let fullDays = sel_fullDays trimmed;
                   sortedFullDays = filter (\<lambda>day. day \<in> fullDays) sel_fullDaysOfWeek
               in join '', '' sortedFullDays)))"

section \<open>Parsing as two integers, in the words of the specification\<close>



section \<open>Facts about the built-ins\<close>









section \<open>Facts about the matcher\<close>







section \<open>Slots that cross midnight\<close>



section \<open>Slots within one day\<close>



section \<open>Slots of no length\<close>



section \<open>Resolving day descriptors\<close>

lemma abbreviation_range_days:
  assumes "i < 7" and "j < 7"
  shows "scheduledDays (dayOrderArray ! i @ ''-'' @ dayOrderArray ! j)
         = set (map ((!) fullDaysOfWeek) [i..<Suc j])"
proof -
  have "i \<in> {0, 1, 2, 3, 4, 5, 6}" and "j \<in> {0, 1, 2, 3, 4, 5, 6}"
    using assms by auto
  then show ?thesis
    by (elim insertE emptyE; hypsubst; code_simp)
qed

lemma sel_constants:
  "sel_shortDayToFull = shortDayToFull" "sel_dayOrderArray = dayOrderArray"
  "sel_fullDaysOfWeek = fullDaysOfWeek"
  by (simp_all add: sel_shortDayToFull_def shortDayToFull_def sel_dayOrderArray_def
      dayOrderArray_def sel_fullDaysOfWeek_def fullDaysOfWeek_def)

lemma sel_addDay: "sel_addDay = addDay"
  unfolding fun_eq_iff sel_addDay_def addDay_def sel_constants by simp

lemma sel_addRange: "sel_addRange = addRange"
  unfolding fun_eq_iff sel_addRange_def addRange_def sel_addDay by simp

lemma sel_addPart: "sel_addPart = addPart"
  unfolding fun_eq_iff sel_addPart_def addPart_def sel_constants sel_addRange by simp

lemma sel_fullDays: "sel_fullDays = scheduledDays"
  unfolding fun_eq_iff sel_fullDays_def scheduledDays_def sel_parts_def parts_def sel_addPart
  by simp

text \<open>
  Claim C3. A range token of two abbreviations joined by \<open>-\<close> resolves to the day names at
  the indices from the first to the second, both included, in the order Monday to Sunday, when
  the first index is at most the second, and to no day otherwise. \<open>Mon-Wed\<close> resolves to
  Monday, Tuesday and Wednesday; \<open>Wed-Mon\<close> resolves to nothing. The loop of the day selector
  resolves every descriptor to the same set, and the selector returns these two as the text
  \<open>Monday, Tuesday, Wednesday\<close> and as the empty text.
\<close>

theorem range_token:
  "(\<forall>i<7. \<forall>j<7.
      scheduledDays (dayOrderArray ! i @ ''-'' @ dayOrderArray ! j)
      = (if i \<le> j then {fullDaysOfWeek ! k | k. i \<le> k \<and> k \<le> j} else {}))
   \<and> scheduledDays ''Mon-Wed'' = {''Monday'', ''Tuesday'', ''Wednesday''}
   \<and> scheduledDays ''Wed-Mon'' = {}
   \<and> sel_fullDays descriptor = scheduledDays descriptor
   \<and> normaliseDaysForSelector ''Mon-Wed'' = ''Monday, Tuesday, Wednesday''
   \<and> normaliseDaysForSelector ''Wed-Mon'' = []"
proof -
  have general: "scheduledDays (dayOrderArray ! i @ ''-'' @ dayOrderArray ! j)
      = (if i \<le> j then {fullDaysOfWeek ! k | k. i \<le> k \<and> k \<le> j} else {})"
    if "i < 7" and "j < 7" for i j
  proof -
    have "set (map ((!) fullDaysOfWeek) [i..<Suc j]) = {fullDaysOfWeek ! k | k. i \<le> k \<and> k \<le> j}"
      by (auto simp: less_Suc_eq_le)
    moreover have "{fullDaysOfWeek ! k | k. i \<le> k \<and> k \<le> j} = {}" if "\<not> i \<le> j"
      using that by auto
    ultimately show ?thesis
      using abbreviation_range_days [OF \<open>i < 7\<close> \<open>j < 7\<close>] by simp
  qed
  have mon_wed: "scheduledDays ''Mon-Wed'' = {''Monday'', ''Tuesday'', ''Wednesday''}"
    by code_simp
  have wed_mon: "scheduledDays ''Wed-Mon'' = {}"
    by code_simp
  have selector: "sel_fullDays descriptor = scheduledDays descriptor"
    by (simp add: sel_fullDays)
  have text_mon_wed: "normaliseDaysForSelector ''Mon-Wed'' = ''Monday, Tuesday, Wednesday''"
    by code_simp
  have text_wed_mon: "normaliseDaysForSelector ''Wed-Mon'' = []"
    by code_simp
  from general mon_wed wed_mon selector text_mon_wed text_wed_mon show ?thesis
    by blast
qed

theorem range_token_witness:
  "scheduledDays ''Thu-Sat'' = {''Thursday'', ''Friday'', ''Saturday''}
   \<and> scheduledDays ''Sat-Thu'' = {}"
proof -
  have idx: "dayOrderArray ! 3 = ''Thu''" "dayOrderArray ! 5 = ''Sat''"
    by (simp_all add: dayOrderArray_def)
  have names: "{fullDaysOfWeek ! k | k. 3 \<le> k \<and> k \<le> 5} = {''Thursday'', ''Friday'', ''Saturday''}"
  proof -
    have indices: "{k::nat. 3 \<le> k \<and> k \<le> 5} = {3, 4, 5}"
      by auto
    have image: "{fullDaysOfWeek ! k | k. 3 \<le> k \<and> k \<le> 5}
        = (!) fullDaysOfWeek ` {k. 3 \<le> k \<and> k \<le> 5}"
      by auto
    show ?thesis
      unfolding image indices by (simp add: fullDaysOfWeek_def)
  qed
  note general = conjunct1 [OF range_token, rule_format]
  have "scheduledDays (dayOrderArray ! 3 @ ''-'' @ dayOrderArray ! 5)
      = {fullDaysOfWeek ! k | k. 3 \<le> k \<and> k \<le> 5}"
    using general [of 3 5] by simp
  moreover have "scheduledDays (dayOrderArray ! 5 @ ''-'' @ dayOrderArray ! 3) = {}"
    using general [of 5 3] by simp
  ultimately show ?thesis
    unfolding idx names by simp
qed












section \<open>Missing and malformed input\<close>




section \<open>The two day fields\<close>



section \<open>The two copies\<close>

lemma req_constants:
  "req_shortDayToFull = shortDayToFull" "req_dayOrderArray = dayOrderArray"
  "req_fullDaysOfWeek = fullDaysOfWeek" "req_dayFullNameMap = dayFullNameMap"
  by (simp_all add: req_shortDayToFull_def shortDayToFull_def req_dayOrderArray_def
      dayOrderArray_def req_fullDaysOfWeek_def fullDaysOfWeek_def fun_eq_iff
      req_dayFullNameMap_def dayFullNameMap_def)

lemma req_addDay: "req_addDay = addDay"
  unfolding fun_eq_iff req_addDay_def addDay_def req_constants by simp

lemma req_addRange: "req_addRange = addRange"
  unfolding fun_eq_iff req_addRange_def addRange_def req_addDay by simp

lemma req_addPart: "req_addPart = addPart"
  unfolding fun_eq_iff req_addPart_def addPart_def req_constants req_addRange by simp

lemma req_scheduledDays: "req_scheduledDays = scheduledDays"
  unfolding fun_eq_iff req_scheduledDays_def scheduledDays_def req_parts_def parts_def
    req_addPart by simp

lemma req_minutesOf: "req_minutesOf = minutesOf"
  by (simp add: fun_eq_iff req_minutesOf_def minutesOf_def)

lemma req_date:
  "req_currentDayName = currentDayName" "req_previousDayName = previousDayName"
  "req_currentTime = currentTime" "req_formattedDayString = formattedDayString"
  by (simp_all add: fun_eq_iff req_currentDayName_def currentDayName_def
      req_previousDayName_def previousDayName_def req_currentTime_def currentTime_def
      req_formattedDayString_def formattedDayString_def req_constants)

text \<open>
  Claim C7. The matcher of the registration analytics and the matcher of the request analytics
  return the same boolean on every show record and every point in time.
\<close>

theorem copies_agree: "req_isShowOnAir show date = isShowOnAir show date"
  unfolding req_isShowOnAir_def isShowOnAir_def req_scheduledDays req_minutesOf req_date
  by (rule refl)

theorem copies_agree_witness:
  "req_isShowOnAir \<lparr>rowIndex = 2, Days_of_Week = Some ''Fri-Sat'', Day = None, Show = ''Late'',
      Presenter = ''Sam'', Start = Some ''22:00'', End = Some ''02:00'', Aliases = None\<rparr>
     (ValidDate 6 1 30 0)
   = isShowOnAir \<lparr>rowIndex = 2, Days_of_Week = Some ''Fri-Sat'', Day = None, Show = ''Late'',
      Presenter = ''Sam'', Start = Some ''22:00'', End = Some ''02:00'', Aliases = None\<rparr>
     (ValidDate 6 1 30 0)"
  by (rule copies_agree)

section \<open>Purity\<close>



section \<open>Reading clock times\<close>















end
